theory Spec2Isabelle
  imports Complex_Main "HOL-Library.Char_ord" "HOL-Library.List_Lexorder"
begin

section \<open>Happy Solar reporting dashboards\<close>

text \<open>
  A shallow embedding of the aggregation code of three Python modules:
  \<^verbatim>\<open>kixie_dashboard.py\<close> (the call-center dashboard and its \<^verbatim>\<open>update_dashboard\<close>
  callback), \<^verbatim>\<open>sales_dashboard.py\<close> (grouped counts of opportunities) and
  \<^verbatim>\<open>api/index.py\<close> (the \<^verbatim>\<open>/api/stats\<close> route).

  Conventions of the model.
  \<^item> Python's unbounded integers are \<open>int\<close>; lengths and counts are \<open>nat\<close>.
  \<^item> A pandas cell that is None, NaN or NaT is \<open>None\<close>; every other cell is \<open>Some v\<close>.
  \<^item> Call durations are whole seconds. pandas switches a numeric column to float as
    soon as it holds a NaN, and adds a column of integers in 64 bits; the model keeps the
    exact integer value of every sum, which is what pandas computes for sums below
    \<open>2\<^sup>5\<^sup>3\<close> seconds.
  \<^item> The floats of the two rate computations are IEEE doubles, modelled bit for bit by
    their significand and exponent.
  \<^item> A raised Python exception is the \<open>Inl\<close> branch of a sum type.
\<close>

subsection \<open>Rendering numbers\<close>

definition digit_char :: "nat \<Rightarrow> char" where
  "digit_char d = ''0123456789'' ! d"

text \<open>\<^verbatim>\<open>str(n)\<close> of a non-negative integer: its decimal digits, most significant first.\<close>

fun str_nat :: "nat \<Rightarrow> string" where
  "str_nat n = (if n < 10 then [digit_char n] else str_nat (n div 10) @ [digit_char (n mod 10)])"

declare str_nat.simps [simp del]

definition str_int :: "int \<Rightarrow> string" where
  "str_int i = (if i < 0 then CHR ''-'' # str_nat (nat (- i)) else str_nat (nat i))"

text \<open>
  \<^verbatim>\<open>int(x / k)\<close> for an integer \<open>x\<close> and a positive \<open>k\<close>: true division followed
  by truncation towards zero. The quotient is taken exactly; Python's float quotient
  truncates to the same integer for every \<open>x\<close> below \<open>2\<^sup>5\<^sup>3\<close>.
\<close>

definition int_truediv :: "int \<Rightarrow> int \<Rightarrow> int" where
  "int_truediv x k = (if 0 \<le> x then x div k else - ((- x) div k))"

text \<open>
  The integer nearest to \<open>a / b\<close> for \<open>b > 0\<close>, ties going to the even neighbour.
\<close>

definition round_half_even :: "int \<Rightarrow> int \<Rightarrow> int" where
  "round_half_even a b =
     (let q = a div b; r = a mod b
      in if 2 * r < b then q
         else if b < 2 * r then q + 1
         else if even q then q else q + 1)"

subsection \<open>Binary floating point\<close>

text \<open>
  A non-negative Python float (an IEEE double) is the pair \<open>(m, e)\<close> of its integer
  significand and its exponent: the number \<open>m * 2\<^sup>e\<close>. The exponent is not bounded
  here; the doubles the rate sites compute are quotients of row counts, far inside the
  range of normal doubles.
\<close>

type_synonym double = "int \<times> int"

definition double_value :: "double \<Rightarrow> real" where
  "double_value x = of_int (fst x) * 2 powi (snd x)"

text \<open>
  Scaling \<open>a / b * 2\<^sup>e\<close> without changing its value until the quotient \<open>a / b\<close> lies
  in \<open>[2\<^sup>5\<^sup>2, 2\<^sup>5\<^sup>3)\<close>, where doubles are the integers.
\<close>

function scale_up :: "int \<Rightarrow> int \<Rightarrow> int \<Rightarrow> int \<times> int" where
  "scale_up a b e = (if 0 < a \<and> a < 2 ^ 52 * b then scale_up (2 * a) b (e - 1) else (a, e))"
  by pat_completeness auto
termination
  by (relation "measure (\<lambda>(a, b, e). nat (2 ^ 52 * b - a))") auto

function scale_down :: "int \<Rightarrow> int \<Rightarrow> int \<Rightarrow> int \<times> int" where
  "scale_down a b e = (if 0 < b \<and> 2 ^ 53 * b \<le> a then scale_down a (2 * b) (e + 1) else (b, e))"
  by pat_completeness auto
termination
  by (relation "measure (\<lambda>(a, b, e). nat (a + 1 - 2 ^ 53 * b))") auto

declare scale_up.simps [simp del] scale_down.simps [simp del]

text \<open>The double nearest to \<open>a / b\<close> (round to nearest, ties to even), for \<open>a \<ge> 0\<close>, \<open>b > 0\<close>.\<close>

definition nearest_double :: "int \<Rightarrow> int \<Rightarrow> double" where
  "nearest_double a b =
     (let (a', e1) = scale_up a b 0;
          (b', e2) = scale_down a' b e1
      in (round_half_even a' b', e2))"

text \<open>
  \<^verbatim>\<open>n / d\<close> for two counts: Python's true division of integers returns the double
  nearest to the exact quotient. (Counts are below \<open>2\<^sup>5\<^sup>3\<close>, so converting them to
  doubles first, as numpy does, changes nothing.)
\<close>

definition truediv :: "nat \<Rightarrow> nat \<Rightarrow> double" where
  "truediv n d = nearest_double (int n) (int d)"

text \<open>\<^verbatim>\<open>x * k\<close> for a float and a small positive integer: the double nearest to the product.\<close>

definition float_mul :: "double \<Rightarrow> int \<Rightarrow> double" where
  "float_mul x k = (let (m, e) = nearest_double (fst x * k) 1 in (m, snd x + e))"

text \<open>
  \<^verbatim>\<open>f"{x:.1f}"\<close>: the decimal with one fractional digit nearest to the exact value of
  the double, ties to even.
\<close>

definition format_1f :: "double \<Rightarrow> string" where
  "format_1f x =
     (let t = (if 0 \<le> snd x then fst x * 10 * 2 ^ nat (snd x)
               else round_half_even (fst x * 10) (2 ^ nat (- snd x)))
      in str_nat (nat (t div 10)) @ ''.'' @ str_nat (nat (t mod 10)))"

text \<open>\<^verbatim>\<open>f"{(n/d*100):.1f}"\<close> for counts \<open>n\<close> and \<open>d > 0\<close>.\<close>

definition format_pct_1f :: "nat \<Rightarrow> nat \<Rightarrow> string" where
  "format_pct_1f n d = format_1f (float_mul (truediv n d) 100)"

subsection \<open>Records, frames and the record source\<close>

datatype pyerr = KeyError string

text \<open>
  A raw \<^verbatim>\<open>callDate\<close> value: one that \<^verbatim>\<open>pd.to_datetime\<close> parses (kept as the ordinal of
  its calendar day, the only part \<^verbatim>\<open>.dt.date\<close> retains) or one it cannot parse.
\<close>

datatype stamp = Stamp int | Unparsable

text \<open>One row of the calls table, restricted to the columns the callback reads.\<close>

record call =
  call_id :: "string option"
  agent :: "string option"
  outcome :: "string option"
  duration :: "int option"
  callDate :: "stamp option"
  date :: "int option"

record dataframe =
  columns :: "string list"
  rows :: "call list"

text \<open>A Firestore document: its id, the keys of \<^verbatim>\<open>to_dict()\<close> and their values.\<close>

record document =
  doc_id :: string
  doc_keys :: "string list"
  doc_data :: call

text \<open>
  The record source as \<^verbatim>\<open>fetch_calls\<close> sees it: no client (\<^verbatim>\<open>db = None\<close>), a stream
  that raises, or the documents of the collection.
\<close>

datatype source = NoDb | StreamError | Docs "document list"

definition df_empty :: "dataframe \<Rightarrow> bool" where
  "df_empty df = (rows df = [] \<or> columns df = [])"

definition null_call :: call where
  "null_call = \<lparr>call_id = None, agent = None, outcome = None, duration = None,
                 callDate = None, date = None\<rparr>"

text \<open>A row built from a dict: a column the dict has no key for is null.\<close>

definition restrict_call :: "string list \<Rightarrow> call \<Rightarrow> call" where
  "restrict_call ks r =
     \<lparr>call_id = (if ''id'' \<in> set ks then call_id r else None),
      agent = (if ''agent'' \<in> set ks then agent r else None),
      outcome = (if ''outcome'' \<in> set ks then outcome r else None),
      duration = (if ''duration'' \<in> set ks then duration r else None),
      callDate = (if ''callDate'' \<in> set ks then callDate r else None),
      date = (if ''date'' \<in> set ks then date r else None)\<rparr>"

definition add_keys :: "string list \<Rightarrow> string list \<Rightarrow> string list" where
  "add_keys acc ks = fold (\<lambda>k a. if k \<in> set a then a else a @ [k]) ks acc"

text \<open>\<^verbatim>\<open>data = doc.to_dict(); data['id'] = doc.id\<close>\<close>

definition doc_dict :: "document \<Rightarrow> string list \<times> call" where
  "doc_dict d =
     (add_keys (doc_keys d) [''id''],
      restrict_call (doc_keys d) (doc_data d) \<lparr>call_id := Some (doc_id d)\<rparr>)"

text \<open>\<^verbatim>\<open>pd.DataFrame(calls)\<close>: the columns are the keys in order of first appearance.\<close>

definition DataFrame :: "(string list \<times> call) list \<Rightarrow> dataframe" where
  "DataFrame calls =
     \<lparr>columns = fold (\<lambda>c acc. add_keys acc (fst c)) calls [],
      rows = map snd calls\<rparr>"

definition fetch_calls :: "source \<Rightarrow> dataframe" where
  "fetch_calls src =
     (case src of
        NoDb \<Rightarrow> DataFrame []
      | StreamError \<Rightarrow> DataFrame []
      | Docs ds \<Rightarrow> DataFrame (map doc_dict ds))"

definition to_datetime :: "stamp option \<Rightarrow> stamp option" where
  "to_datetime v = (case v of Some (Stamp d) \<Rightarrow> Some (Stamp d) | _ \<Rightarrow> None)"

definition dt_date :: "stamp option \<Rightarrow> int option" where
  "dt_date v = (case v of Some (Stamp d) \<Rightarrow> Some d | _ \<Rightarrow> None)"

text \<open>
  \<^verbatim>\<open>df['callDate'] = pd.to_datetime(df['callDate'], errors='coerce')\<close> and
  \<^verbatim>\<open>df['date'] = df['callDate'].dt.date\<close>
\<close>

definition process_dates :: "dataframe \<Rightarrow> dataframe" where
  "process_dates df =
     \<lparr>columns = add_keys (columns df) [''date''],
      rows = map (\<lambda>r. r\<lparr>callDate := to_datetime (callDate r),
                           date := dt_date (to_datetime (callDate r))\<rparr>) (rows df)\<rparr>"

text \<open>\<^verbatim>\<open>df['date'] = None\<close>\<close>

definition set_date_none :: "dataframe \<Rightarrow> dataframe" where
  "set_date_none df =
     \<lparr>columns = add_keys (columns df) [''date''],
      rows = map (\<lambda>r. r\<lparr>date := None\<rparr>) (rows df)\<rparr>"

definition default_columns :: "string list" where
  "default_columns = [''id'', ''agent'', ''phoneNumber'', ''direction'', ''outcome'',
                      ''duration'', ''callDate'', ''callEndDate'', ''receivedAt'']"

text \<open>The module-level code that builds the global \<^verbatim>\<open>df\<close> when the dashboard starts.\<close>

definition module_init :: "source \<Rightarrow> dataframe" where
  "module_init src =
     (let df0 = fetch_calls src;
          df1 = (if df_empty df0 then \<lparr>columns = default_columns, rows = []\<rparr> else df0)
      in if ''callDate'' \<in> set (columns df1) \<and> \<not> df_empty df1 then process_dates df1
         else if \<not> df_empty df1 then set_date_none df1
         else df1)"

subsection \<open>Column access and the date filter\<close>

text \<open>\<^verbatim>\<open>df[name]\<close>: the cells of a column, or KeyError when the frame has no such column.\<close>

definition getcol :: "string \<Rightarrow> (call \<Rightarrow> 'a) \<Rightarrow> dataframe \<Rightarrow> pyerr + 'a list" where
  "getcol name field df =
     (if name \<in> set (columns df) then Inr (map field (rows df)) else Inl (KeyError name))"

text \<open>\<^verbatim>\<open>filtered_df[filtered_df['date'].notna()]\<close>\<close>

definition notna_date :: "dataframe \<Rightarrow> dataframe" where
  "notna_date df = df\<lparr>rows := filter (\<lambda>r. date r \<noteq> None) (rows df)\<rparr>"

text \<open>\<^verbatim>\<open>filtered_df[(filtered_df['date'] >= start) & (filtered_df['date'] <= end)]\<close>\<close>

definition between_dates :: "int \<Rightarrow> int \<Rightarrow> dataframe \<Rightarrow> dataframe" where
  "between_dates start endd df =
     df\<lparr>rows := filter (\<lambda>r. case date r of None \<Rightarrow> False
                                 | Some d \<Rightarrow> start \<le> d \<and> d \<le> endd) (rows df)\<rparr>"

text \<open>
  The date filter of the callback as a function of the frame. A bound of the range is
  \<open>None\<close> when the picker supplies none (\<^verbatim>\<open>None\<close> or the empty string, both falsy) and
  \<open>Some d\<close> with the day it denotes otherwise.
\<close>

definition filter_by_date :: "dataframe \<Rightarrow> int option \<Rightarrow> int option \<Rightarrow> dataframe" where
  "filter_by_date df start_date end_date =
     (case (start_date, end_date) of
        (Some start, Some endd) \<Rightarrow>
          if ''date'' \<in> set (columns df) then between_dates start endd (notna_date df) else df
      | _ \<Rightarrow> df)"

subsection \<open>Key figures\<close>

definition total_calls :: "dataframe \<Rightarrow> nat" where
  "total_calls filtered_df = length (rows filtered_df)"

definition connected_outcomes :: "string list" where
  "connected_outcomes = [''connected'', ''answered'', ''success'']"

definition isin :: "'a list \<Rightarrow> 'a option \<Rightarrow> bool" where
  "isin vs v = (case v of None \<Rightarrow> False | Some x \<Rightarrow> x \<in> set vs)"

text \<open>\<^verbatim>\<open>filtered_df[filtered_df['outcome'].isin(connected_outcomes)].shape[0]\<close>\<close>

definition connections :: "dataframe \<Rightarrow> pyerr + nat" where
  "connections filtered_df =
     (case getcol ''outcome'' outcome filtered_df of
        Inl e \<Rightarrow> Inl e
      | Inr col \<Rightarrow> Inr (length (filter (isin connected_outcomes) col)))"

definition connection_rate :: "nat \<Rightarrow> nat \<Rightarrow> string" where
  "connection_rate conns calls =
     (if calls > 0 then format_pct_1f conns calls @ ''%'' else ''0%'')"

text \<open>\<^verbatim>\<open>Series.sum()\<close>: nulls are skipped, the empty sum is 0.\<close>

definition sum_skipna :: "int option list \<Rightarrow> int" where
  "sum_skipna col = sum_list (map (\<lambda>v. case v of None \<Rightarrow> 0 | Some x \<Rightarrow> x) col)"

definition total_duration :: "dataframe \<Rightarrow> int" where
  "total_duration filtered_df =
     (if ''duration'' \<in> set (columns filtered_df)
      then sum_skipna (map duration (rows filtered_df)) else 0)"

text \<open>The Total Talk Time card, from the number of seconds.\<close>

definition talk_time :: "int \<Rightarrow> string" where
  "talk_time secs =
     (let talk_minutes = int_truediv secs 60
      in if talk_minutes > 60
         then str_int (talk_minutes div 60) @ ''h '' @ str_int (talk_minutes mod 60) @ ''m''
         else str_int talk_minutes @ ''m'')"

text \<open>
  The Talk Time column of the agent table:
  \<^verbatim>\<open>lambda x: f"{int(x/60)}m" if x < 3600 else f"{x//60}h {x%60}m"\<close>,
  for an integer sum \<open>x\<close>. (When a document lacks a duration the column is a float
  column and from 3600 on the same numbers print with a trailing \<^verbatim>\<open>.0\<close>.)
\<close>

definition agent_talk_time :: "int \<Rightarrow> string" where
  "agent_talk_time x =
     (if x < 3600 then str_int (int_truediv x 60) @ ''m''
      else str_int (x div 60) @ ''h '' @ str_int (x mod 60) @ ''m'')"

text \<open>
  The Connection % column of the agent table:
  \<^verbatim>\<open>f"{(r['Connections']/r['Total Calls']*100):.1f}%" if r['Total Calls'] > 0 else "0%"\<close>
\<close>

definition agent_connection_pct :: "nat \<Rightarrow> nat \<Rightarrow> string" where
  "agent_connection_pct conns calls =
     (if calls > 0 then format_pct_1f conns calls @ ''%'' else ''0%'')"

text \<open>
  The duration rule as the specification words it: minutes = floor(total_seconds/60);
  \<^verbatim>\<open>"{minutes}m"\<close> if minutes \<open>\<le>\<close> 60, else \<^verbatim>\<open>"{minutes//60}h {minutes%60}m"\<close>.
\<close>

definition spec_format_duration :: "int \<Rightarrow> string" where
  "spec_format_duration total_seconds =
     (let minutes = total_seconds div 60
      in if minutes \<le> 60 then str_int minutes @ ''m''
         else str_int (minutes div 60) @ ''h '' @ str_int (minutes mod 60) @ ''m'')"

subsection \<open>Grouped counts\<close>

definition dropna :: "'a option list \<Rightarrow> 'a list" where
  "dropna col = List.map_filter (\<lambda>v. v) col"

fun bump :: "'a \<Rightarrow> ('a \<times> nat) list \<Rightarrow> ('a \<times> nat) list" where
  "bump k [] = [(k, 1)]"
| "bump k ((k', c) # rest) = (if k = k' then (k', c + 1) # rest else (k', c) # bump k rest)"

text \<open>
  \<^verbatim>\<open>sort_values(key, ascending=False)\<close>. pandas reverses the sequence, sorts it
  ascending and reverses the result, so that with a stable sort equal keys keep their
  order. The order among equal keys is a choice of the model: pandas' default sort
  kind does not promise it.
\<close>

definition sort_values_desc :: "('a \<Rightarrow> nat) \<Rightarrow> 'a list \<Rightarrow> 'a list" where
  "sort_values_desc key xs = rev (sort_key key (rev xs))"

text \<open>
  \<^verbatim>\<open>Series.value_counts()\<close>: nulls are dropped, each remaining value is counted, and
  the (value, count) pairs are put in descending order of the count.
\<close>

definition value_counts :: "'a option list \<Rightarrow> ('a \<times> nat) list" where
  "value_counts col = sort_values_desc snd (fold bump (dropna col) [])"

text \<open>\<^verbatim>\<open>.head(n)\<close>\<close>

definition head :: "nat \<Rightarrow> 'a list \<Rightarrow> 'a list" where
  "head n xs = take n xs"

subsection \<open>The agent table\<close>

record agent_stat =
  Agent :: string
  Total_Calls :: nat
  Connections :: nat
  Total_Duration :: int
  Connection_pct :: string
  Talk_Time :: string

text \<open>
  One group of \<^verbatim>\<open>groupby('agent').agg({'id': 'count', 'outcome': ..., 'duration': 'sum'})\<close>
  with the two columns derived from it. \<^verbatim>\<open>count\<close> counts the non-null ids of the group.
\<close>

definition agent_row :: "call list \<Rightarrow> string \<Rightarrow> agent_stat" where
  "agent_row rs a =
     (let g = filter (\<lambda>r. agent r = Some a) rs;
          calls = length (dropna (map call_id g));
          conns = length (filter (isin connected_outcomes) (map outcome g));
          dur = sum_skipna (map duration g)
      in \<lparr>Agent = a, Total_Calls = calls, Connections = conns, Total_Duration = dur,
          Connection_pct = agent_connection_pct conns calls,
          Talk_Time = agent_talk_time dur\<rparr>)"

definition missing_column :: "string list \<Rightarrow> dataframe \<Rightarrow> string option" where
  "missing_column names df = find (\<lambda>n. n \<notin> set (columns df)) names"

text \<open>
  The agent table before it is rendered: one row per non-null agent (groupby drops null
  keys and sorts the others), then \<^verbatim>\<open>sort_values('Connections', ascending=False)\<close>.
  Grouping by, or aggregating, a column the frame does not have raises KeyError.
\<close>

definition agent_stats :: "dataframe \<Rightarrow> pyerr + agent_stat list" where
  "agent_stats filtered_df =
     (case missing_column [''agent'', ''id'', ''outcome'', ''duration''] filtered_df of
        Some n \<Rightarrow> Inl (KeyError n)
      | None \<Rightarrow>
          Inr (sort_values_desc Connections
                 (map (agent_row (rows filtered_df))
                      (sort (remdups (dropna (map agent (rows filtered_df))))))))"

subsection \<open>The callback\<close>

datatype figure = EmptyFigure | Pie "(string \<times> nat) list" | Bar "(string \<times> nat) list"

datatype agent_table = NoData | Table "agent_stat list"

type_synonym view = "string \<times> string \<times> string \<times> string \<times> figure \<times> figure \<times> agent_table"

definition no_data :: view where
  "no_data = (''0'', ''0'', ''0%'', ''0m'', EmptyFigure, EmptyFigure, NoData)"

text \<open>Everything the callback computes from \<^verbatim>\<open>filtered_df\<close>, from "Calculate KPIs" on.\<close>

definition recompute :: "dataframe \<Rightarrow> pyerr + view" where
  "recompute filtered_df =
     (case connections filtered_df of
        Inl e \<Rightarrow> Inl e
      | Inr conns \<Rightarrow>
     (case getcol ''outcome'' outcome filtered_df of
        Inl e \<Rightarrow> Inl e
      | Inr outcome_col \<Rightarrow>
     (case getcol ''agent'' agent filtered_df of
        Inl e \<Rightarrow> Inl e
      | Inr agent_col \<Rightarrow>
     (case agent_stats filtered_df of
        Inl e \<Rightarrow> Inl e
      | Inr stats \<Rightarrow>
          Inr (str_nat (total_calls filtered_df),
               str_nat conns,
               connection_rate conns (total_calls filtered_df),
               talk_time (total_duration filtered_df),
               Pie (value_counts outcome_col),
               Bar (head 10 (value_counts agent_col)),
               Table stats)))))"

text \<open>
  The interpreter state the callback runs in: the frames that exist, by address, and the
  address the global name \<^verbatim>\<open>df\<close> is bound to.
\<close>

record state =
  heap :: "dataframe list"
  global_df :: nat

definition alloc :: "dataframe \<Rightarrow> state \<Rightarrow> nat \<times> state" where
  "alloc v st = (length (heap st), st\<lparr>heap := heap st @ [v]\<rparr>)"

definition deref :: "state \<Rightarrow> nat \<Rightarrow> dataframe" where
  "deref st a = heap st ! a"

definition store :: "nat \<Rightarrow> dataframe \<Rightarrow> state \<Rightarrow> state" where
  "store a v st = st\<lparr>heap := (heap st)[a := v]\<rparr>"

definition init_state :: "source \<Rightarrow> state" where
  "init_state src = \<lparr>heap = [module_init src], global_df = 0\<rparr>"

text \<open>
  \<^verbatim>\<open>df = fetch_calls()\<close> binds the global to a new frame; the two column assignments
  that follow write into that frame.
\<close>

definition refresh :: "source \<Rightarrow> state \<Rightarrow> state" where
  "refresh src st =
     (let (a, s) = alloc (fetch_calls src) st;
          s1 = s\<lparr>global_df := a\<rparr>
      in if ''callDate'' \<in> set (columns (deref s1 a)) \<and> \<not> df_empty (deref s1 a)
         then store a (process_dates (deref s1 a)) s1
         else s1)"

text \<open>
  The date filter as the callback runs it on the frame at address \<open>f\<close>: each boolean
  indexing makes a new frame, to which \<^verbatim>\<open>filtered_df\<close> is then bound.
\<close>

definition apply_date_filter :: "nat \<Rightarrow> int option \<Rightarrow> int option \<Rightarrow> state \<Rightarrow> nat \<times> state" where
  "apply_date_filter f start_date end_date st =
     (case (start_date, end_date) of
        (Some start, Some endd) \<Rightarrow>
          if ''date'' \<in> set (columns (deref st f))
          then let (f1, s1) = alloc (notna_date (deref st f)) st;
                   (f2, s2) = alloc (between_dates start endd (deref s1 f1)) s1
               in (f2, s2)
          else (f, st)
      | _ \<Rightarrow> (f, st))"

text \<open>
  \<^verbatim>\<open>update_dashboard(apply_clicks, start_date, end_date, refresh_clicks, auto_refresh)\<close>.
  The record source is a parameter; the result is what the callback returns or raises,
  with the state it leaves behind.
\<close>

definition update_dashboard ::
  "source \<Rightarrow> nat \<Rightarrow> int option \<Rightarrow> int option \<Rightarrow> nat \<Rightarrow> nat \<Rightarrow> state
     \<Rightarrow> (pyerr + view) \<times> state" where
  "update_dashboard src apply_clicks start_date end_date refresh_clicks auto_refresh st =
     (let st1 = (if refresh_clicks > 0 \<or> auto_refresh > 0 then refresh src st else st)
      in if df_empty (deref st1 (global_df st1)) then (Inr no_data, st1)
         else let (f, st2) = alloc (deref st1 (global_df st1)) st1;
                  (f', st3) = apply_date_filter f start_date end_date st2
              in (recompute (deref st3 f'), st3))"

subsection \<open>The status routes\<close>

text \<open>
  The Firestore client of \<^verbatim>\<open>api/index.py\<close>: \<open>None\<close> when \<^verbatim>\<open>db\<close> is \<^verbatim>\<open>None\<close>; otherwise,
  for each collection name, the value of \<^verbatim>\<open>db.collection(name).count().get()[0].value\<close>
  or \<open>None\<close> when that expression raises.
\<close>

type_synonym client = "string \<Rightarrow> int option"

definition count_or :: "client \<Rightarrow> string \<Rightarrow> 'a \<Rightarrow> (int \<Rightarrow> 'a) \<Rightarrow> 'a" where
  "count_or c name dflt ok = (case c name of None \<Rightarrow> dflt | Some v \<Rightarrow> ok v)"

definition api_stats :: "client option \<Rightarrow> (string \<rightharpoonup> int)" where
  "api_stats db =
     (case db of
        None \<Rightarrow> Map.empty
      | Some c \<Rightarrow>
          (let stats = Map.empty;
               stats = stats(''contacts'' \<mapsto> count_or c ''ghl_contacts'' 0 (\<lambda>v. v));
               stats = stats(''opportunities'' \<mapsto> count_or c ''ghl_opportunities'' 0 (\<lambda>v. v));
               stats = stats(''pipelines'' \<mapsto> count_or c ''ghl_pipelines'' 0 (\<lambda>v. v));
               stats = stats(''users'' \<mapsto> count_or c ''ghl_users'' 0 (\<lambda>v. v))
           in stats))"

text \<open>
  The values the sibling route \<^verbatim>\<open>/\<close> puts in its page: a dash until a count is
  fetched, then the count.
\<close>

datatype shown = Dash | Count int | Text string

definition index_stats :: "client option \<Rightarrow> string \<Rightarrow> (string \<rightharpoonup> shown)" where
  "index_stats db now =
     (let stats = [''contacts'' \<mapsto> Dash, ''opportunities'' \<mapsto> Dash, ''pipelines'' \<mapsto> Dash,
                   ''users'' \<mapsto> Dash, ''last_update'' \<mapsto> Text ''Loading...''];
          stats = (case db of
                     None \<Rightarrow> stats
                   | Some c \<Rightarrow>
                       (let s = count_or c ''ghl_contacts'' stats (\<lambda>v. stats(''contacts'' \<mapsto> Count v));
                            s = count_or c ''ghl_opportunities'' s (\<lambda>v. s(''opportunities'' \<mapsto> Count v));
                            s = count_or c ''ghl_pipelines'' s (\<lambda>v. s(''pipelines'' \<mapsto> Count v));
                            s = count_or c ''ghl_users'' s (\<lambda>v. s(''users'' \<mapsto> Count v))
                        in s))
      in stats(''last_update'' \<mapsto> Text now))"

subsection \<open>Reachable states and the scenario of the specification\<close>

text \<open>Every row of the frame carries a document id.\<close>

definition ids_present :: "dataframe \<Rightarrow> bool" where
  "ids_present df = (\<forall>r \<in> set (rows df). call_id r \<noteq> None)"

definition wf_state :: "state \<Rightarrow> bool" where
  "wf_state st = (global_df st < length (heap st) \<and> ids_present (deref st (global_df st)))"

text \<open>
  The states the dashboard can be in: the one the module-level code builds, and any state
  a run of the callback leaves behind, whatever the record source returns at that time.
\<close>

inductive reachable :: "state \<Rightarrow> bool" where
  start: "reachable (init_state src)"
| callback: "reachable st \<Longrightarrow>
     reachable (snd (update_dashboard src apply_clicks start_date end_date
                       refresh_clicks auto_refresh st))"

text \<open>
  The three call records of the specification's scenario, as documents of the
  collection. \<^verbatim>\<open>fetch_calls\<close> gives every record the id of its document.
\<close>

definition scenario_docs :: "document list" where
  "scenario_docs =
     [\<lparr>doc_id = ''c1'', doc_keys = [''agent'', ''outcome'', ''duration''],
       doc_data = null_call\<lparr>agent := Some ''A'', outcome := Some ''connected'',
                            duration := Some 120\<rparr>\<rparr>,
      \<lparr>doc_id = ''c2'', doc_keys = [''agent'', ''outcome'', ''duration''],
       doc_data = null_call\<lparr>agent := Some ''A'', outcome := Some ''no-answer'',
                            duration := Some 0\<rparr>\<rparr>,
      \<lparr>doc_id = ''c3'', doc_keys = [''agent'', ''outcome'', ''duration''],
       doc_data = null_call\<lparr>agent := Some ''B'', outcome := Some ''connected'',
                            duration := Some 300\<rparr>\<rparr>]"

definition scenario_row_A :: agent_stat where
  "scenario_row_A = \<lparr>Agent = ''A'', Total_Calls = 2, Connections = 1, Total_Duration = 120,
                      Connection_pct = ''50.0%'', Talk_Time = ''2m''\<rparr>"

definition scenario_row_B :: agent_stat where
  "scenario_row_B = \<lparr>Agent = ''B'', Total_Calls = 1, Connections = 1, Total_Duration = 300,
                      Connection_pct = ''100.0%'', Talk_Time = ''5m''\<rparr>"

definition scenario_view :: view where
  "scenario_view = (''3'', ''2'', ''66.7%'', ''7m'',
                    Pie [(''connected'', 2), (''no-answer'', 1)],
                    Bar [(''A'', 2), (''B'', 1)],
                    Table [scenario_row_A, scenario_row_B])"

text \<open>
  A collection whose only document carries no outcome: an agent, a duration and a call
  date on day 5.
\<close>

definition no_outcome_docs :: "document list" where
  "no_outcome_docs =
     [\<lparr>doc_id = ''c1'', doc_keys = [''agent'', ''duration'', ''callDate''],
       doc_data = null_call\<lparr>agent := Some ''A'', duration := Some 10,
                            callDate := Some (Stamp 5)\<rparr>\<rparr>]"

section \<open>Properties\<close>

subsection \<open>Talk time\<close>

lemma talk_time_canonical: "0 \<le> s \<Longrightarrow> talk_time s = spec_format_duration s"
  by (auto simp: talk_time_def spec_format_duration_def int_truediv_def Let_def)

lemma agent_talk_time_below_hour:
  "0 \<le> x \<Longrightarrow> x < 3600 \<Longrightarrow> agent_talk_time x = spec_format_duration x"
  by (simp add: agent_talk_time_def spec_format_duration_def int_truediv_def Let_def)

text \<open>
  C1. The Total Talk Time card follows the duration rule of the specification for every
  non-negative number of seconds (\<open>talk_time_canonical\<close>), and so does the Talk Time
  column below one hour (\<open>agent_talk_time_below_hour\<close>). From 3600 seconds on the column
  prints the minutes as hours and the remaining seconds as minutes: one hour of talk is
  rendered \<^verbatim>\<open>60h 0m\<close> where the rule and the card give \<^verbatim>\<open>60m\<close>, and two hours are
  rendered \<^verbatim>\<open>120h 0m\<close> where they give \<^verbatim>\<open>2h 0m\<close>.
\<close>

theorem agent_talk_time_one_hour:
  "agent_talk_time 3600 = ''60h 0m'' \<and> spec_format_duration 3600 = ''60m'' \<and>
   talk_time 3600 = ''60m'' \<and>
   agent_talk_time 7200 = ''120h 0m'' \<and> spec_format_duration 7200 = ''2h 0m'' \<and>
   talk_time 7200 = ''2h 0m''"
  by (simp add: agent_talk_time_def spec_format_duration_def talk_time_def int_truediv_def
      str_int_def str_nat.simps digit_char_def)

subsection \<open>Rates\<close>

lemma round_half_even_nearest:
  assumes "0 < b"
  shows "2 * \<bar>round_half_even a b * b - a\<bar> \<le> b"
proof -
  define q where "q = a div b"
  define r where "r = a mod b"
  have a: "a = q * b + r" by (simp add: q_def r_def)
  have rb: "0 \<le> r" "r < b" using assms by (simp_all add: r_def)
  show ?thesis
    using rb unfolding round_half_even_def Let_def q_def[symmetric] r_def[symmetric] a
    by (auto simp: algebra_simps abs_if)
qed

lemma scale_up_spec:
  "0 < a \<Longrightarrow> 0 < b \<Longrightarrow> scale_up a b e = (a', e') \<Longrightarrow>
     (of_int a' :: real) * 2 powi e' = of_int a * 2 powi e \<and> 0 < a' \<and> 2 ^ 52 * b \<le> a' \<and>
     (a < 2 ^ 53 * b \<longrightarrow> a' < 2 ^ 53 * b)"
proof (induction a b e rule: scale_up.induct)
  case (1 a b e)
  show ?case
  proof (cases "a < 2 ^ 52 * b")
    case True
    then have s: "scale_up (2 * a) b (e - 1) = (a', e')"
      using "1.prems" by (simp add: scale_up.simps [of a])
    have ih: "(of_int a' :: real) * 2 powi e' = of_int (2 * a) * 2 powi (e - 1) \<and> 0 < a' \<and>
        2 ^ 52 * b \<le> a' \<and> (2 * a < 2 ^ 53 * b \<longrightarrow> a' < 2 ^ 53 * b)"
      using "1.IH" [OF _ _ _ s] True "1.prems" by simp
    have "(of_int (2 * a) :: real) * 2 powi (e - 1) = of_int a * 2 powi e"
      by (simp add: power_int_diff)
    with ih True show ?thesis by simp
  next
    case False
    then have "a' = a" "e' = e"
      using "1.prems" by (simp_all add: scale_up.simps [of a])
    with False "1.prems" show ?thesis by simp
  qed
qed

lemma scale_down_spec:
  "0 < b \<Longrightarrow> scale_down a b e = (b', e') \<Longrightarrow>
     (of_int b' :: real) * 2 powi e = of_int b * 2 powi e' \<and> 0 < b' \<and> a < 2 ^ 53 * b' \<and>
     (2 ^ 52 * b \<le> a \<longrightarrow> 2 ^ 52 * b' \<le> a)"
proof (induction a b e rule: scale_down.induct)
  case (1 a b e)
  show ?case
  proof (cases "2 ^ 53 * b \<le> a")
    case True
    then have s: "scale_down a (2 * b) (e + 1) = (b', e')"
      using "1.prems" by (simp add: scale_down.simps [of a b])
    have ih: "(of_int b' :: real) * 2 powi (e + 1) = of_int (2 * b) * 2 powi e' \<and> 0 < b' \<and>
        a < 2 ^ 53 * b' \<and> (2 ^ 52 * (2 * b) \<le> a \<longrightarrow> 2 ^ 52 * b' \<le> a)"
      using "1.IH" [OF _ _ s] True "1.prems" by simp
    have "(of_int b' :: real) * 2 powi (e + 1) = 2 * (of_int b' * 2 powi e)"
      by (simp add: power_int_add)
    with ih True show ?thesis by simp
  next
    case False
    then have "b' = b" "e' = e"
      using "1.prems" by (simp_all add: scale_down.simps [of a b])
    with False "1.prems" show ?thesis by simp
  qed
qed


lemma nearest_double_zero: "0 < b \<Longrightarrow> nearest_double 0 b = (0, 0)"
  by (simp add: nearest_double_def scale_up.simps [of 0] scale_down.simps [of 0]
      round_half_even_def)

lemma nearest_double_error:
  assumes "0 < a" "0 < b"
  shows "\<bar>double_value (nearest_double a b) - of_int a / of_int b\<bar>
           \<le> (of_int a / of_int b) / 2 ^ 53"
proof -
  obtain a' e1 where up: "scale_up a b 0 = (a', e1)" by (cases "scale_up a b 0")
  obtain b' e2 where down: "scale_down a' b e1 = (b', e2)" by (cases "scale_down a' b e1")
  define m where "m = round_half_even a' b'"
  define P :: real where "P = 2 powi e2"
  define A :: real where "A = of_int a'"
  define B :: real where "B = of_int b'"
  define M :: real where "M = of_int m"
  have nd: "nearest_double a b = (m, e2)"
    by (simp add: nearest_double_def up down m_def)
  from scale_up_spec [OF assms up]
  have u: "(of_int a' :: real) * 2 powi e1 = of_int a" "0 < a'" "2 ^ 52 * b \<le> a'"
    by simp_all
  from scale_down_spec [OF assms(2) down] u(3)
  have d: "(of_int b' :: real) * 2 powi e1 = of_int b * 2 powi e2" "0 < b'" "2 ^ 52 * b' \<le> a'"
    by simp_all
  have P: "0 < P" by (simp add: P_def)
  have B: "0 < B" using d(2) by (simp add: B_def)
  have b0: "(0::real) < of_int b" using assms(2) by simp
  have e1: "(0::real) < 2 powi e1" by simp
  have q: "of_int a / of_int b = A * P / B"
  proof -
    have "(of_int a :: real) * of_int b' * 2 powi e1 = of_int a' * 2 powi e1 * (of_int b * 2 powi e2)"
      using u(1) d(1) by (simp add: mult_ac)
    then have "(of_int a :: real) * B = A * of_int b * P"
      using e1 by (simp add: A_def B_def P_def mult_ac)
    then show ?thesis
      using B b0 by (simp add: field_simps)
  qed
  have "2 * \<bar>m * b' - a'\<bar> \<le> b'"
    unfolding m_def by (rule round_half_even_nearest [OF d(2)])
  then have "(of_int (2 * \<bar>m * b' - a'\<bar>) :: real) \<le> of_int b'"
    by (simp only: of_int_le_iff)
  then have r: "2 * \<bar>M * B - A\<bar> \<le> B"
    by (simp add: M_def B_def A_def)
  have lo: "2 ^ 52 * B \<le> A"
  proof -
    have "(of_int (2 ^ 52 * b') :: real) \<le> of_int a'"
      using d(3) by (simp only: of_int_le_iff)
    then show ?thesis by (simp add: A_def B_def)
  qed
  have "\<bar>M * P - A * P / B\<bar> = \<bar>M * B - A\<bar> * P / B"
  proof -
    have "M * P - A * P / B = (M * B - A) * P / B"
      using B by (simp add: field_simps)
    then show ?thesis
      using P B by (simp add: abs_mult)
  qed
  also have "\<dots> \<le> (B / 2) * P / B"
    using r P B by (intro divide_right_mono mult_right_mono) simp_all
  also have "\<dots> = P / 2"
    using B by simp
  also have "\<dots> \<le> (A * P / B) / 2 ^ 53"
  proof -
    have "2 ^ 52 * B * P \<le> A * P"
      using lo P by (intro mult_right_mono) simp_all
    then have "2 ^ 52 * P \<le> A * P / B"
      using B by (simp add: field_simps)
    then show ?thesis by simp
  qed
  finally show ?thesis
    by (simp add: nd double_value_def q M_def P_def)
qed


lemma round_half_even_nonneg: "0 \<le> a \<Longrightarrow> 0 < b \<Longrightarrow> 0 \<le> round_half_even a b"
  by (simp add: round_half_even_def Let_def pos_imp_zdiv_nonneg_iff)

lemma nearest_double_nonneg:
  assumes "0 \<le> a" "0 < b"
  shows "0 \<le> fst (nearest_double a b)"
proof (cases "a = 0")
  case True
  then show ?thesis using assms(2) by (simp add: nearest_double_zero)
next
  case False
  then have a: "0 < a" using assms(1) by simp
  obtain a' e1 where up: "scale_up a b 0 = (a', e1)" by (cases "scale_up a b 0")
  obtain b' e2 where down: "scale_down a' b e1 = (b', e2)" by (cases "scale_down a' b e1")
  from scale_up_spec [OF a assms(2) up] have "0 < a'" by simp
  moreover from scale_down_spec [OF assms(2) down] have "0 < b'" by simp
  ultimately have "0 \<le> round_half_even a' b'"
    by (simp add: round_half_even_nonneg)
  then show ?thesis
    by (simp add: nearest_double_def up down)
qed

lemma float_mul_error:
  assumes "0 \<le> fst x" "0 < k"
  shows "\<bar>double_value (float_mul x k) - double_value x * of_int k\<bar>
           \<le> double_value x * of_int k / 2 ^ 53"
proof (cases "fst x = 0")
  case True
  then show ?thesis
    by (simp add: float_mul_def nearest_double_zero double_value_def)
next
  case False
  then have p: "0 < fst x * k" using assms by simp
  obtain m e where nd: "nearest_double (fst x * k) 1 = (m, e)"
    by (cases "nearest_double (fst x * k) 1")
  define S :: real where "S = 2 powi snd x"
  define V :: real where "V = of_int m * 2 powi e"
  define W :: real where "W = of_int (fst x * k)"
  have S: "0 < S" by (simp add: S_def)
  from nearest_double_error [OF p, of 1] nd
  have vw: "\<bar>V - W\<bar> \<le> W / 2 ^ 53"
    by (simp add: double_value_def V_def W_def)
  have "float_mul x k = (m, snd x + e)"
    by (simp add: float_mul_def nd)
  then have fv: "double_value (float_mul x k) = V * S"
    by (simp add: double_value_def S_def V_def power_int_add mult_ac)
  have xv: "double_value x * of_int k = W * S"
    by (simp add: double_value_def S_def W_def mult_ac)
  have "\<bar>V * S - W * S\<bar> = \<bar>V - W\<bar> * S"
    using S by (simp add: abs_mult left_diff_distrib [symmetric])
  also have "\<dots> \<le> W / 2 ^ 53 * S"
    using vw S by (intro mult_right_mono) simp_all
  also have "\<dots> = W * S / 2 ^ 53"
    by simp
  finally show ?thesis
    unfolding fv xv .
qed

lemma float_mul_nonneg: "0 \<le> fst x \<Longrightarrow> 0 < k \<Longrightarrow> 0 \<le> fst (float_mul x k)"
  using nearest_double_nonneg [of "fst x * k" 1]
  by (simp add: float_mul_def split_beta)

lemma pct_error:
  assumes "0 < d"
  shows "\<bar>double_value (float_mul (truediv n d) 100) - 100 * real n / real d\<bar>
           \<le> (100 * real n / real d) / 2 ^ 51"
proof -
  define q :: real where "q = real n / real d"
  define Y where "Y = double_value (truediv n d)"
  define Z where "Z = double_value (float_mul (truediv n d) 100)"
  have q0: "0 \<le> q" by (simp add: q_def)
  have y: "\<bar>Y - q\<bar> \<le> q / 2 ^ 53"
  proof (cases "n = 0")
    case True
    then show ?thesis
      using assms by (simp add: Y_def q_def truediv_def nearest_double_zero double_value_def)
  next
    case False
    with assms have "0 < int n" "0 < int d" by simp_all
    from nearest_double_error [OF this] show ?thesis
      by (simp add: Y_def q_def truediv_def)
  qed
  have "0 \<le> fst (truediv n d)"
    using assms by (simp add: truediv_def nearest_double_nonneg)
  from float_mul_error [OF this, of 100]
  have z: "\<bar>Z - Y * 100\<bar> \<le> Y * 100 / 2 ^ 53"
    by (simp add: Z_def Y_def)
  have N: "(2::real) ^ 53 = 9007199254740992" "(2::real) ^ 51 = 2251799813685248"
    by simp_all
  have "\<bar>Z - 100 * q\<bar> \<le> (100 * q) / 2 ^ 51"
    using y z q0 unfolding N by linarith
  then show ?thesis
    by (simp add: Z_def q_def)
qed

lemma format_1f_tenths:
  assumes "0 \<le> fst x"
  shows "\<exists>t::nat. format_1f x = str_nat (t div 10) @ ''.'' @ str_nat (t mod 10) \<and>
           \<bar>real t - 10 * double_value x\<bar> \<le> 1 / 2"
proof -
  define t where "t = (if 0 \<le> snd x then fst x * 10 * 2 ^ nat (snd x)
               else round_half_even (fst x * 10) (2 ^ nat (- snd x)))"
  have t0: "0 \<le> t"
    using assms by (simp add: t_def round_half_even_nonneg)
  have f: "format_1f x = str_nat (nat t div 10) @ ''.'' @ str_nat (nat t mod 10)"
    using t0 by (simp add: format_1f_def t_def [symmetric] nat_div_distrib nat_mod_distrib)
  have "\<bar>real_of_int t - 10 * double_value x\<bar> \<le> 1 / 2"
  proof (cases "0 \<le> snd x")
    case True
    then have "(2::real) powi snd x = 2 ^ nat (snd x)"
      by (simp add: power_int_def)
    with True show ?thesis
      by (simp add: t_def double_value_def)
  next
    case False
    define k where "k = nat (- snd x)"
    have p: "(2::real) powi snd x = 1 / 2 ^ k"
      using False by (simp add: power_int_def k_def field_simps)
    have "2 * \<bar>t * 2 ^ k - fst x * 10\<bar> \<le> 2 ^ k"
      using False round_half_even_nearest [of "2 ^ k" "fst x * 10"]
      by (simp add: t_def k_def)
    then have "(of_int (2 * \<bar>t * 2 ^ k - fst x * 10\<bar>) :: real) \<le> of_int (2 ^ k)"
      by (simp only: of_int_le_iff)
    then have "2 * \<bar>real_of_int t * 2 ^ k - real_of_int (fst x) * 10\<bar> \<le> 2 ^ k"
      by simp
    then have "\<bar>real_of_int t - 10 * (real_of_int (fst x) / 2 ^ k)\<bar> \<le> 1 / 2"
      by (simp add: abs_le_iff field_simps)
    then show ?thesis
      by (simp add: double_value_def p)
  qed
  with f t0 show ?thesis
    by (intro exI [of _ "nat t"]) simp
qed

lemma format_pct_1f_tenths:
  assumes "0 < d"
  shows "\<exists>t::nat. format_pct_1f n d = str_nat (t div 10) @ ''.'' @ str_nat (t mod 10) \<and>
           \<bar>real t / 10 - 100 * real n / real d\<bar>
             \<le> 1 / 20 + (100 * real n / real d) / 2 ^ 51"
proof -
  let ?z = "float_mul (truediv n d) 100"
  have "0 \<le> fst ?z"
    using assms by (simp add: float_mul_nonneg truediv_def nearest_double_nonneg)
  from format_1f_tenths [OF this] obtain t :: nat where
    t: "format_1f ?z = str_nat (t div 10) @ ''.'' @ str_nat (t mod 10)"
       "\<bar>real t - 10 * double_value ?z\<bar> \<le> 1 / 2"
    by blast
  from t(2) have "\<bar>real t / 10 - double_value ?z\<bar> \<le> 1 / 20"
    by (simp add: abs_le_iff field_simps)
  with pct_error [OF assms, of n]
  have "\<bar>real t / 10 - 100 * real n / real d\<bar> \<le> 1 / 20 + (100 * real n / real d) / 2 ^ 51"
    by linarith
  with t(1) show ?thesis
    by (intro exI [of _ t]) (simp add: format_pct_1f_def)
qed

lemma format_pct_zero: "0 < d \<Longrightarrow> format_pct_1f 0 d = ''0.0''"
  by (simp add: format_pct_1f_def truediv_def float_mul_def format_1f_def nearest_double_zero
      str_nat.simps digit_char_def)

text \<open>
  C3. At both rate sites, the Connection Rate card and the Connection % column, a zero
  denominator gives exactly \<^verbatim>\<open>0%\<close> whatever the numerator, without dividing. With a
  positive denominator \<open>d\<close> (counts are below \<open>2\<^sup>5\<^sup>3\<close>) the result is the float
  \<^verbatim>\<open>n/d*100\<close> printed with one decimal and a trailing percent sign: the number of tenths
  printed lies within half a tenth, plus the rounding error of the two float operations,
  of \<open>100 * n / d\<close>. In particular a zero numerator gives \<^verbatim>\<open>0.0%\<close>.
\<close>

theorem rate_sites:
  "connection_rate n 0 = ''0%'' \<and> agent_connection_pct n 0 = ''0%'' \<and>
   (0 < d \<and> n < 2 ^ 53 \<and> d < 2 ^ 53 \<longrightarrow>
      connection_rate n d = format_1f (float_mul (truediv n d) 100) @ ''%'' \<and>
      agent_connection_pct n d = format_1f (float_mul (truediv n d) 100) @ ''%'' \<and>
      (\<exists>t::nat. connection_rate n d = str_nat (t div 10) @ ''.'' @ str_nat (t mod 10) @ ''%'' \<and>
           \<bar>real t / 10 - 100 * real n / real d\<bar>
             \<le> 1 / 20 + (100 * real n / real d) / 2 ^ 51) \<and>
      connection_rate 0 d = ''0.0%'' \<and> agent_connection_pct 0 d = ''0.0%'')"
proof -
  have near: "\<exists>t::nat. connection_rate n d = str_nat (t div 10) @ ''.'' @ str_nat (t mod 10) @ ''%'' \<and>
           \<bar>real t / 10 - 100 * real n / real d\<bar>
             \<le> 1 / 20 + (100 * real n / real d) / 2 ^ 51" if "0 < d"
  proof -
    from format_pct_1f_tenths [OF that, of n] obtain t :: nat where
      "format_pct_1f n d = str_nat (t div 10) @ ''.'' @ str_nat (t mod 10)"
      "\<bar>real t / 10 - 100 * real n / real d\<bar> \<le> 1 / 20 + (100 * real n / real d) / 2 ^ 51"
      by blast
    then show ?thesis
      using that by (intro exI [of _ t]) (simp add: connection_rate_def)
  qed
  have "connection_rate n d = format_1f (float_mul (truediv n d) 100) @ ''%''"
       "agent_connection_pct n d = format_1f (float_mul (truediv n d) 100) @ ''%''"
       "connection_rate 0 d = ''0.0%''" "agent_connection_pct 0 d = ''0.0%''" if "0 < d"
    using that
    by (simp_all add: connection_rate_def agent_connection_pct_def format_pct_zero
        format_pct_1f_def [symmetric])
  with near show ?thesis
    by (simp add: connection_rate_def agent_connection_pct_def)
qed

theorem rate_sites_witness:
  "connection_rate 23 0 = ''0%'' \<and> (0::nat) < 80 \<and> (23::nat) < 2 ^ 53 \<and> (80::nat) < 2 ^ 53 \<and>
   connection_rate 23 80 = ''28.7%'' \<and> agent_connection_pct 23 80 = ''28.7%'' \<and>
   connection_rate 0 80 = ''0.0%''"
  using rate_sites [of 23 80]
  by (simp add: format_1f_def float_mul_def truediv_def nearest_double_def
      scale_up.simps scale_down.simps round_half_even_def str_nat.simps digit_char_def)

subsection \<open>Grouped counts\<close>

lemma sum_bump: "sum_list (map snd (bump k acc)) = Suc (sum_list (map snd acc))"
  by (induction acc) auto

lemma sum_fold_bump:
  "sum_list (map snd (fold bump xs acc)) = length xs + sum_list (map snd acc)"
  by (induction xs arbitrary: acc) (simp_all add: sum_bump)

lemma sum_insort_key:
  "sum_list (map f (insort_key k x xs)) = (f x :: nat) + sum_list (map f xs)"
  by (induction xs) simp_all

lemma sum_sort_key: "sum_list (map f (sort_key k xs)) = sum_list (map (f :: 'a \<Rightarrow> nat) xs)"
  by (induction xs) (simp_all add: sum_insort_key)

lemma sum_sort_values_desc:
  "sum_list (map (f :: 'a \<Rightarrow> nat) (sort_values_desc k xs)) = sum_list (map f xs)"
  by (simp add: sort_values_desc_def rev_map [symmetric] sum_sort_key sum_list_rev del: rev_map)

lemma sorted_sort_values_desc:
  "sorted_wrt (\<ge>) (map key (sort_values_desc key xs))"
proof -
  have "map key (sort_values_desc key xs) = rev (map key (sort_key key (rev xs)))"
    by (simp add: sort_values_desc_def rev_map)
  moreover have "sorted (map key (sort_key key (rev xs)))"
    by (rule sorted_sort_key)
  ultimately show ?thesis
    by (simp add: sorted_wrt_rev)
qed

lemma set_sort_values_desc: "set (sort_values_desc key xs) = set xs"
  by (simp add: sort_values_desc_def)

lemma length_dropna: "length (dropna col) = length (filter (\<lambda>v. v \<noteq> None) col)"
  by (induction col) (simp_all add: dropna_def split: option.splits)

lemma set_dropna: "set (dropna col) = {x. Some x \<in> set col}"
  by (induction col) (auto simp: dropna_def split: option.splits)

text \<open>
  C4. For every column, the grouped counts that \<^verbatim>\<open>value_counts\<close> returns are in
  non-increasing order of the count, also after \<^verbatim>\<open>.head(n)\<close> (10 agents on the calls
  dashboard, 15 setters on the sales dashboard); and the counts of all groups add up to
  the number of rows whose cell in that column is not null, which is the number of rows
  minus the nulls that were left out.
\<close>

theorem value_counts_sorted_sum:
  "sorted_wrt (\<ge>) (map snd (value_counts col)) \<and>
   sorted_wrt (\<ge>) (map snd (head n (value_counts col))) \<and>
   sum_list (map snd (value_counts col)) = length (filter (\<lambda>v. v \<noteq> None) col) \<and>
   sum_list (map snd (value_counts col)) = length col - length (filter (\<lambda>v. v = None) col)"
proof -
  have s: "sorted_wrt (\<ge>) (map snd (value_counts col))"
    by (simp add: value_counts_def sorted_sort_values_desc)
  have t: "sorted_wrt (\<ge>) (map snd (head n (value_counts col)))"
    using sorted_wrt_take [OF s, of n] by (simp add: head_def take_map)
  have c: "sum_list (map snd (value_counts col)) = length (filter (\<lambda>v. v \<noteq> None) col)"
    by (simp add: value_counts_def sum_sort_values_desc sum_fold_bump length_dropna)
  have "length col = length (filter (\<lambda>v. v \<noteq> None) col) + length (filter (\<lambda>v. v = None) col)"
    using sum_length_filter_compl [of "\<lambda>v. v \<noteq> None" col] by simp
  with s t c show ?thesis by simp
qed


subsection \<open>The date filter\<close>

text \<open>
  C5. Filtering by date is idempotent: for every frame and every inclusive range,
  filtering the filtered frame again by the same range returns it unchanged. When the
  start or the end of the range is not supplied the filter returns its input unchanged.
\<close>

theorem filter_by_date_idempotent:
  "filter_by_date (filter_by_date df start_date end_date) start_date end_date
     = filter_by_date df start_date end_date \<and>
   filter_by_date df None end_date = df \<and> filter_by_date df start_date None = df"
  by (auto simp: filter_by_date_def between_dates_def notna_date_def split: option.splits)

subsection \<open>Counting matches\<close>

text \<open>
  C7. The number of rows whose outcome is one of the connected outcomes, when the
  callback can compute it, is at most the number of rows; more generally, for every
  frame, column and set of values, the number of rows whose cell is a member of the set is
  at most the number of rows.
\<close>

theorem connections_le_total:
  "(connections T = Inr n \<longrightarrow> n \<le> total_calls T) \<and>
   length (filter (isin P) (map c (rows T))) \<le> total_calls T"
  by (auto simp: connections_def getcol_def total_calls_def split: if_splits
      intro: order_trans [OF length_filter_le])

subsection \<open>The status route\<close>

text \<open>
  C8. With a configured client \<^verbatim>\<open>/api/stats\<close> answers with the four counts, 0 standing
  for each count whose fetch raises (\<open>api_stats_configured\<close>). Without a client, when
  \<^verbatim>\<open>db\<close> is \<^verbatim>\<open>None\<close>, it answers with the empty object: none of the four keys is
  present, whereas the sibling route \<^verbatim>\<open>/\<close> fills all four in before it looks at the
  client (\<open>index_stats_keys\<close>).
\<close>

theorem api_stats_unconfigured: "api_stats None = Map.empty"
  by (simp add: api_stats_def)

lemma api_stats_configured:
  "dom (api_stats (Some c)) = {''contacts'', ''opportunities'', ''pipelines'', ''users''} \<and>
   api_stats (Some c) ''contacts'' = Some (case c ''ghl_contacts'' of None \<Rightarrow> 0 | Some v \<Rightarrow> v) \<and>
   api_stats (Some c) ''opportunities'' = Some (case c ''ghl_opportunities'' of None \<Rightarrow> 0 | Some v \<Rightarrow> v) \<and>
   api_stats (Some c) ''pipelines'' = Some (case c ''ghl_pipelines'' of None \<Rightarrow> 0 | Some v \<Rightarrow> v) \<and>
   api_stats (Some c) ''users'' = Some (case c ''ghl_users'' of None \<Rightarrow> 0 | Some v \<Rightarrow> v)"
  by (auto simp: api_stats_def count_or_def Let_def split: option.splits)

lemma index_stats_keys:
  "{''contacts'', ''opportunities'', ''pipelines'', ''users''} \<subseteq> dom (index_stats db now)"
  by (auto simp: index_stats_def count_or_def Let_def split: option.splits)


subsection \<open>The callback\<close>

lemma deref_alloc:
  "deref (snd (alloc v st)) (fst (alloc v st)) = v"
  by (simp add: alloc_def deref_def)

lemma apply_date_filter_result:
  "deref (snd (apply_date_filter f start_date end_date st)) (fst (apply_date_filter f start_date end_date st))
     = filter_by_date (deref st f) start_date end_date"
  by (simp add: apply_date_filter_def filter_by_date_def alloc_def deref_def nth_append
      split: option.splits)

lemma apply_date_filter_heap:
  "\<exists>extra. snd (apply_date_filter f start_date end_date st) = st\<lparr>heap := heap st @ extra\<rparr>"
proof (cases "\<exists>s e. start_date = Some s \<and> end_date = Some e \<and> ''date'' \<in> set (columns (deref st f))")
  case True
  then obtain s e where "start_date = Some s" "end_date = Some e"
    "''date'' \<in> set (columns (deref st f))" by blast
  then show ?thesis
    by (simp add: apply_date_filter_def alloc_def) (rule exI, rule refl)
next
  case False
  then have "snd (apply_date_filter f start_date end_date st) = st"
    by (auto simp: apply_date_filter_def split: option.splits)
  then show ?thesis
    by (intro exI [of _ "[]"]) simp
qed

lemma update_dashboard_no_refresh_result:
  "fst (update_dashboard src apply_clicks start_date end_date 0 0 st) =
     (if df_empty (deref st (global_df st)) then Inr no_data
      else recompute (filter_by_date (deref st (global_df st)) start_date end_date))"
proof -
  let ?d = "deref st (global_df st)"
  let ?st2 = "snd (alloc ?d st)"
  let ?f = "fst (alloc ?d st)"
  have "fst (update_dashboard src apply_clicks start_date end_date 0 0 st) =
     (if df_empty ?d then Inr no_data
      else recompute (deref (snd (apply_date_filter ?f start_date end_date ?st2))
                            (fst (apply_date_filter ?f start_date end_date ?st2))))"
    by (simp add: update_dashboard_def Let_def split_beta)
  then show ?thesis
    by (simp add: apply_date_filter_result deref_alloc)
qed

lemma update_dashboard_no_refresh_heap:
  "\<exists>extra. snd (update_dashboard src apply_clicks start_date end_date 0 0 st)
             = st\<lparr>heap := heap st @ extra\<rparr>"
proof (cases "df_empty (deref st (global_df st))")
  case True
  then have "snd (update_dashboard src apply_clicks start_date end_date 0 0 st) = st"
    by (simp add: update_dashboard_def)
  then show ?thesis by (intro exI [of _ "[]"]) simp
next
  case False
  let ?d = "deref st (global_df st)"
  let ?st2 = "snd (alloc ?d st)"
  let ?f = "fst (alloc ?d st)"
  obtain extra where e: "snd (apply_date_filter ?f start_date end_date ?st2)
      = ?st2\<lparr>heap := heap ?st2 @ extra\<rparr>"
    using apply_date_filter_heap by blast
  have "snd (update_dashboard src apply_clicks start_date end_date 0 0 st)
      = snd (apply_date_filter ?f start_date end_date ?st2)"
    using False by (simp add: update_dashboard_def Let_def split_beta)
  with e have "snd (update_dashboard src apply_clicks start_date end_date 0 0 st)
      = st\<lparr>heap := heap st @ ([?d] @ extra)\<rparr>"
    by (simp add: alloc_def)
  then show ?thesis by blast
qed


lemma update_dashboard_refresh:
  "update_dashboard src apply_clicks start_date end_date refresh_clicks auto_refresh st =
   update_dashboard src apply_clicks start_date end_date 0 0
     (if refresh_clicks > 0 \<or> auto_refresh > 0 then refresh src st else st)"
  by (simp add: update_dashboard_def)

lemma ids_present_fetch_calls: "ids_present (fetch_calls src)"
  by (cases src) (simp_all add: ids_present_def fetch_calls_def DataFrame_def doc_dict_def)

lemma ids_present_process_dates: "ids_present df \<Longrightarrow> ids_present (process_dates df)"
  by (simp add: ids_present_def process_dates_def)

lemma ids_present_set_date_none: "ids_present df \<Longrightarrow> ids_present (set_date_none df)"
  by (simp add: ids_present_def set_date_none_def)

lemma ids_present_no_rows: "rows df = [] \<Longrightarrow> ids_present df"
  by (simp add: ids_present_def)

lemma ids_present_module_init: "ids_present (module_init src)"
proof -
  let ?df1 = "if df_empty (fetch_calls src)
              then \<lparr>columns = default_columns, rows = []\<rparr> else fetch_calls src"
  have "ids_present ?df1"
    by (simp add: ids_present_fetch_calls ids_present_no_rows)
  then have "ids_present (process_dates ?df1)" "ids_present (set_date_none ?df1)"
    by (rule ids_present_process_dates, rule ids_present_set_date_none)
  with \<open>ids_present ?df1\<close> show ?thesis
    unfolding module_init_def Let_def by presburger
qed

lemma ids_present_filter_by_date:
  "ids_present df \<Longrightarrow> ids_present (filter_by_date df start_date end_date)"
  by (auto simp: ids_present_def filter_by_date_def between_dates_def notna_date_def
      split: option.splits)

lemma wf_state_init: "wf_state (init_state src)"
  by (simp add: wf_state_def init_state_def deref_def ids_present_module_init)

lemma wf_state_refresh: "wf_state (refresh src st)"
  by (simp add: wf_state_def refresh_def alloc_def deref_def store_def Let_def
      ids_present_fetch_calls ids_present_process_dates)

lemma wf_state_update_dashboard:
  assumes "wf_state st"
  shows "wf_state (snd (update_dashboard src apply_clicks start_date end_date refresh_clicks auto_refresh st))"
proof -
  let ?st1 = "if refresh_clicks > 0 \<or> auto_refresh > 0 then refresh src st else st"
  have w: "wf_state ?st1"
    using assms by (simp add: wf_state_refresh)
  obtain extra where
    "snd (update_dashboard src apply_clicks start_date end_date 0 0 ?st1)
       = ?st1\<lparr>heap := heap ?st1 @ extra\<rparr>"
    using update_dashboard_no_refresh_heap by blast
  then have "wf_state (snd (update_dashboard src apply_clicks start_date end_date 0 0 ?st1))"
    using w by (simp add: wf_state_def deref_def nth_append)
  then show ?thesis
    using update_dashboard_refresh [of src apply_clicks start_date end_date refresh_clicks auto_refresh st]
    by simp
qed

lemma reachable_wf_state: "reachable st \<Longrightarrow> wf_state st"
  by (induction rule: reachable.induct) (simp_all add: wf_state_init wf_state_update_dashboard)

lemma agent_row_total_calls:
  assumes "\<forall>r \<in> set rs. call_id r \<noteq> None" and "x \<in> set rs" and "agent x = Some a"
  shows "1 \<le> Total_Calls (agent_row rs a)"
proof -
  let ?g = "filter (\<lambda>r. agent r = Some a) rs"
  have "filter (\<lambda>v. v \<noteq> None) (map call_id ?g) = map call_id ?g"
    using assms(1) by (simp add: filter_id_conv)
  then have "length (dropna (map call_id ?g)) = length ?g"
    unfolding length_dropna by (metis length_map)
  then have "Total_Calls (agent_row rs a) = length ?g"
    by (simp add: agent_row_def Let_def)
  moreover have "x \<in> set ?g"
    using assms(2,3) by simp
  then have "0 < length ?g"
    by (rule length_pos_if_in_set)
  ultimately show ?thesis by linarith
qed

lemma agent_row_connection_pct:
  "Connection_pct (agent_row rs a) =
     agent_connection_pct (Connections (agent_row rs a)) (Total_Calls (agent_row rs a))"
  by (simp add: agent_row_def Let_def)

lemma agent_stats_rows:
  assumes "ids_present df" and "agent_stats df = Inr stats" and "r \<in> set stats"
  shows "1 \<le> Total_Calls r \<and>
         Connection_pct r = format_pct_1f (Connections r) (Total_Calls r) @ ''%''"
proof -
  from assms(2) have "stats = sort_values_desc Connections
       (map (agent_row (rows df)) (sort (remdups (dropna (map agent (rows df))))))"
    by (auto simp: agent_stats_def split: option.splits)
  with assms(3) obtain a where a: "a \<in> set (dropna (map agent (rows df)))"
      and r: "r = agent_row (rows df) a"
    by (auto simp: set_sort_values_desc)
  from a obtain x where x: "x \<in> set (rows df)" "agent x = Some a"
    by (auto simp: set_dropna)
  have "1 \<le> Total_Calls r"
    using agent_row_total_calls [OF _ x] assms(1) r by (simp add: ids_present_def)
  then show ?thesis
    using agent_row_connection_pct [of "rows df" a] r
    by (simp add: agent_connection_pct_def)
qed

lemma recompute_table:
  "recompute df = Inr (tc, cn, cr, tt, f1, f2, Table stats) \<Longrightarrow> agent_stats df = Inr stats"
  by (auto simp: recompute_def split: sum.splits)

text \<open>
  C9. In every reachable state and for every input of the callback, each row of the agent
  table it returns has Total Calls of at least 1, so its Connection % is the formatted
  quotient and never the \<^verbatim>\<open>0%\<close> fallback of a zero denominator.
\<close>

theorem agent_groups_nonempty:
  assumes "reachable st"
    and "fst (update_dashboard src apply_clicks start_date end_date refresh_clicks auto_refresh st)
           = Inr (tc, cn, cr, tt, f1, f2, Table stats)"
    and "r \<in> set stats"
  shows "1 \<le> Total_Calls r \<and>
         Connection_pct r = format_pct_1f (Connections r) (Total_Calls r) @ ''%''"
proof -
  define st1 where "st1 = (if refresh_clicks > 0 \<or> auto_refresh > 0 then refresh src st else st)"
  let ?d = "deref st1 (global_df st1)"
  have w: "wf_state st1"
    using reachable_wf_state [OF assms(1)] by (simp add: st1_def wf_state_refresh)
  have res: "fst (update_dashboard src apply_clicks start_date end_date 0 0 st1)
           = Inr (tc, cn, cr, tt, f1, f2, Table stats)"
    using assms(2) update_dashboard_refresh [of src apply_clicks start_date end_date refresh_clicks auto_refresh st]
    by (simp add: st1_def)
  then have "recompute (filter_by_date ?d start_date end_date)
           = Inr (tc, cn, cr, tt, f1, f2, Table stats)"
    unfolding update_dashboard_no_refresh_result
    by (simp add: no_data_def split: if_splits)
  then have "agent_stats (filter_by_date ?d start_date end_date) = Inr stats"
    by (rule recompute_table)
  moreover have "ids_present (filter_by_date ?d start_date end_date)"
    using w by (simp add: wf_state_def ids_present_filter_by_date)
  ultimately show ?thesis
    using assms(3) agent_stats_rows by blast
qed

text \<open>
  C10. A run of the callback that does not re-fetch (both \<^verbatim>\<open>refresh_clicks\<close> and
  \<^verbatim>\<open>auto_refresh\<close> are 0) leaves the global name bound to the same frame and that
  frame, like every frame that existed before, as it was, whatever the date range; a
  later run with another range therefore returns what it would have returned before.
\<close>

theorem date_filter_frame:
  assumes "reachable st"
  shows "let st' = snd (update_dashboard src apply_clicks start_date end_date 0 0 st)
         in global_df st' = global_df st \<and>
            deref st' (global_df st') = deref st (global_df st) \<and>
            (\<forall>a < length (heap st). deref st' a = deref st a) \<and>
            fst (update_dashboard src' apply_clicks' start_date' end_date' 0 0 st')
              = fst (update_dashboard src' apply_clicks' start_date' end_date' 0 0 st)"
proof -
  obtain extra where e: "snd (update_dashboard src apply_clicks start_date end_date 0 0 st)
       = st\<lparr>heap := heap st @ extra\<rparr>"
    using update_dashboard_no_refresh_heap by blast
  have g: "global_df st < length (heap st)"
    using reachable_wf_state [OF assms] by (simp add: wf_state_def)
  show ?thesis
    unfolding Let_def e update_dashboard_no_refresh_result
    using g by (simp add: deref_def nth_append)
qed

lemma empty_table_defaults:
  "((if refresh_clicks > 0 \<or> auto_refresh > 0 then rows (fetch_calls src) = []
     else rows (deref st (global_df st)) = []) \<longrightarrow>
    fst (update_dashboard src apply_clicks start_date end_date refresh_clicks auto_refresh st)
      = Inr (''0'', ''0'', ''0%'', ''0m'', EmptyFigure, EmptyFigure, NoData)) \<and>
   (rows (fetch_calls src) = [] \<longrightarrow>
      module_init src = \<lparr>columns = default_columns, rows = []\<rparr>)"
proof -
  have "rows (deref (refresh src st) (global_df (refresh src st))) = []"
    if "rows (fetch_calls src) = []"
    using that by (simp add: refresh_def alloc_def deref_def df_empty_def Let_def)
  then have "fst (update_dashboard src apply_clicks start_date end_date refresh_clicks auto_refresh st)
      = Inr no_data"
    if "if refresh_clicks > 0 \<or> auto_refresh > 0 then rows (fetch_calls src) = []
     else rows (deref st (global_df st)) = []"
    using that unfolding update_dashboard_refresh [of _ _ _ _ refresh_clicks] update_dashboard_no_refresh_result
    by (simp add: df_empty_def split: if_splits)
  moreover have "module_init src = \<lparr>columns = default_columns, rows = []\<rparr>"
    if "rows (fetch_calls src) = []"
    using that by (simp add: module_init_def df_empty_def Let_def)
  ultimately show ?thesis
    by (simp add: no_data_def)
qed


lemma recompute_no_rows:
  assumes "rows df = []"
    and "set [''agent'', ''id'', ''outcome'', ''duration''] \<subseteq> set (columns df)"
  shows "recompute df = Inr (''0'', ''0'', ''0%'', ''0m'', Pie [], Bar [], Table [])"
proof -
  have "connections df = Inr 0" "getcol ''outcome'' outcome df = Inr []"
       "getcol ''agent'' agent df = Inr []"
    using assms by (simp_all add: connections_def getcol_def)
  moreover have "agent_stats df = Inr []"
    using assms
    by (simp add: agent_stats_def missing_column_def dropna_def sort_values_desc_def)
  moreover have "str_nat 0 = ''0''" "talk_time (total_duration df) = ''0m''"
    using assms
    by (simp_all add: str_nat.simps digit_char_def total_duration_def sum_skipna_def
        talk_time_def int_truediv_def str_int_def)
  moreover have "value_counts ([] :: string option list) = []"
    by (simp add: value_counts_def dropna_def sort_values_desc_def)
  ultimately show ?thesis
    using assms(1) by (simp add: recompute_def total_calls_def connection_rate_def head_def)
qed

lemma no_outcome_frame:
  "module_init (Docs no_outcome_docs) =
     \<lparr>columns = [''agent'', ''duration'', ''callDate'', ''id'', ''date''],
      rows = [\<lparr>call_id = Some ''c1'', agent = Some ''A'', outcome = None,
                duration = Some 10, callDate = Some (Stamp 5), date = Some 5\<rparr>]\<rparr>"
  by (simp add: module_init_def no_outcome_docs_def fetch_calls_def DataFrame_def doc_dict_def
      add_keys_def restrict_call_def null_call_def df_empty_def process_dates_def
      to_datetime_def dt_date_def Let_def)

text \<open>
  C6. A table with zero rows does not always give the defaults. The stored table with zero
  rows does: the callback returns at once (\<open>empty_table_defaults\<close>). A table that the
  date range leaves with zero rows goes through the aggregations, and they give zero
  counts, \<^verbatim>\<open>0%\<close>, \<^verbatim>\<open>0m\<close> and empty groups when the table has the columns agent, id,
  outcome and duration (\<open>recompute_no_rows\<close>). The callback tests for the duration
  column before it sums it, but not for the outcome column: when no fetched document
  carries an outcome and the range selects no row, the table the aggregations see has
  zero rows and the callback raises KeyError.
\<close>

theorem empty_filtered_table_raises:
  "reachable (init_state (Docs no_outcome_docs)) \<and>
   \<not> df_empty (module_init (Docs no_outcome_docs)) \<and>
   rows (filter_by_date (module_init (Docs no_outcome_docs)) (Some 1) (Some 2)) = [] \<and>
   fst (update_dashboard src apply_clicks (Some 1) (Some 2) 0 0 (init_state (Docs no_outcome_docs)))
     = Inl (KeyError ''outcome'')"
proof -
  have f: "filter_by_date (module_init (Docs no_outcome_docs)) (Some 1) (Some 2)
      = \<lparr>columns = [''agent'', ''duration'', ''callDate'', ''id'', ''date''], rows = []\<rparr>"
    by (simp add: no_outcome_frame filter_by_date_def between_dates_def notna_date_def)
  have e: "\<not> df_empty (module_init (Docs no_outcome_docs))"
    by (simp add: no_outcome_frame df_empty_def)
  have "recompute \<lparr>columns = [''agent'', ''duration'', ''callDate'', ''id'', ''date''], rows = []\<rparr>
      = Inl (KeyError ''outcome'')"
    by (simp add: recompute_def connections_def getcol_def)
  with f e have "fst (update_dashboard src apply_clicks (Some 1) (Some 2) 0 0
      (init_state (Docs no_outcome_docs))) = Inl (KeyError ''outcome'')"
    by (simp add: update_dashboard_no_refresh_result init_state_def deref_def)
  with f e show ?thesis
    by (simp add: reachable.start)
qed

subsection \<open>The scenario\<close>

lemma scenario_frame:
  "module_init (Docs scenario_docs) =
     \<lparr>columns = [''agent'', ''outcome'', ''duration'', ''id'', ''date''],
      rows = [\<lparr>call_id = Some ''c1'', agent = Some ''A'', outcome = Some ''connected'',
                duration = Some 120, callDate = None, date = None\<rparr>,
              \<lparr>call_id = Some ''c2'', agent = Some ''A'', outcome = Some ''no-answer'',
                duration = Some 0, callDate = None, date = None\<rparr>,
              \<lparr>call_id = Some ''c3'', agent = Some ''B'', outcome = Some ''connected'',
                duration = Some 300, callDate = None, date = None\<rparr>]\<rparr>"
  by (simp add: module_init_def scenario_docs_def fetch_calls_def DataFrame_def doc_dict_def
      add_keys_def restrict_call_def null_call_def df_empty_def set_date_none_def Let_def)

lemma scenario_total: "total_calls (module_init (Docs scenario_docs)) = 3"
  by (simp add: scenario_frame total_calls_def)

lemma scenario_connections: "connections (module_init (Docs scenario_docs)) = Inr 2"
  by (simp add: scenario_frame connections_def getcol_def connected_outcomes_def isin_def)

lemma scenario_rate: "connection_rate 2 3 = ''66.7%''"
  by code_simp

lemma scenario_agent_stats:
  "agent_stats (module_init (Docs scenario_docs)) = Inr [scenario_row_A, scenario_row_B]"
  by code_simp

lemma scenario_recompute: "recompute (module_init (Docs scenario_docs)) = Inr scenario_view"
  by code_simp

lemma scenario_callback:
  "fst (update_dashboard src apply_clicks None None 0 0 (init_state (Docs scenario_docs)))
     = Inr scenario_view"
proof -
  have "\<not> df_empty (module_init (Docs scenario_docs))"
    by (simp add: scenario_frame df_empty_def)
  then show ?thesis
    by (simp add: update_dashboard_no_refresh_result init_state_def deref_def
        filter_by_date_def scenario_recompute)
qed

text \<open>
  C2. For the three call records of the scenario, with no date filter, the total count is
  3, the count of connected outcomes is 2, the connection rate is \<^verbatim>\<open>66.7%\<close>, and the
  per-agent aggregation yields count 2, connections 1, duration 120 for A and count 1,
  connections 1, duration 300 for B; the callback returns exactly these figures.
\<close>

theorem scenario_aggregation:
  "total_calls (filter_by_date (module_init (Docs scenario_docs)) None None) = 3 \<and>
   connections (filter_by_date (module_init (Docs scenario_docs)) None None) = Inr 2 \<and>
   connection_rate 2 3 = ''66.7%'' \<and>
   agent_stats (filter_by_date (module_init (Docs scenario_docs)) None None) =
     Inr [\<lparr>Agent = ''A'', Total_Calls = 2, Connections = 1, Total_Duration = 120,
           Connection_pct = ''50.0%'', Talk_Time = ''2m''\<rparr>,
          \<lparr>Agent = ''B'', Total_Calls = 1, Connections = 1, Total_Duration = 300,
           Connection_pct = ''100.0%'', Talk_Time = ''5m''\<rparr>] \<and>
   fst (update_dashboard src apply_clicks None None 0 0 (init_state (Docs scenario_docs)))
     = Inr (''3'', ''2'', ''66.7%'', ''7m'',
            Pie [(''connected'', 2), (''no-answer'', 1)],
            Bar [(''A'', 2), (''B'', 1)],
            Table [\<lparr>Agent = ''A'', Total_Calls = 2, Connections = 1, Total_Duration = 120,
                     Connection_pct = ''50.0%'', Talk_Time = ''2m''\<rparr>,
                   \<lparr>Agent = ''B'', Total_Calls = 1, Connections = 1, Total_Duration = 300,
                     Connection_pct = ''100.0%'', Talk_Time = ''5m''\<rparr>])"
  using scenario_total scenario_connections scenario_rate scenario_agent_stats
    scenario_callback [of src apply_clicks]
  by (simp add: filter_by_date_def scenario_view_def scenario_row_A_def scenario_row_B_def)

theorem connections_le_total_witness:
  "connections (module_init (Docs scenario_docs)) = Inr 2 \<and>
   2 \<le> total_calls (module_init (Docs scenario_docs))"
  using connections_le_total [where T = "module_init (Docs scenario_docs)" and n = 2
      and P = connected_outcomes and c = outcome] scenario_connections
  by simp

theorem agent_groups_nonempty_witness:
  "reachable (init_state (Docs scenario_docs)) \<and>
   fst (update_dashboard NoDb 0 None None 0 0 (init_state (Docs scenario_docs)))
     = Inr (''3'', ''2'', ''66.7%'', ''7m'', Pie [(''connected'', 2), (''no-answer'', 1)],
            Bar [(''A'', 2), (''B'', 1)], Table [scenario_row_A, scenario_row_B]) \<and>
   scenario_row_A \<in> set [scenario_row_A, scenario_row_B] \<and>
   1 \<le> Total_Calls scenario_row_A \<and>
   Connection_pct scenario_row_A
     = format_pct_1f (Connections scenario_row_A) (Total_Calls scenario_row_A) @ ''%''"
proof -
  have r: "reachable (init_state (Docs scenario_docs))"
    by (rule reachable.start)
  have v: "fst (update_dashboard NoDb 0 None None 0 0 (init_state (Docs scenario_docs)))
     = Inr (''3'', ''2'', ''66.7%'', ''7m'', Pie [(''connected'', 2), (''no-answer'', 1)],
            Bar [(''A'', 2), (''B'', 1)], Table [scenario_row_A, scenario_row_B])"
    using scenario_callback [of NoDb 0] by (simp add: scenario_view_def)
  have m: "scenario_row_A \<in> set [scenario_row_A, scenario_row_B]"
    by simp
  from agent_groups_nonempty [OF r v m] r v m show ?thesis
    by blast
qed

theorem date_filter_frame_witness:
  "reachable (init_state (Docs scenario_docs)) \<and>
   (let st' = snd (update_dashboard NoDb 0 (Some 1) (Some 2) 0 0 (init_state (Docs scenario_docs)))
    in global_df st' = global_df (init_state (Docs scenario_docs)) \<and>
       deref st' (global_df st') = module_init (Docs scenario_docs) \<and>
       (\<forall>a < length (heap (init_state (Docs scenario_docs))).
           deref st' a = deref (init_state (Docs scenario_docs)) a) \<and>
       fst (update_dashboard NoDb 0 None None 0 0 st') = Inr scenario_view)"
proof -
  have r: "reachable (init_state (Docs scenario_docs))"
    by (rule reachable.start)
  have d: "deref (init_state (Docs scenario_docs)) (global_df (init_state (Docs scenario_docs)))
      = module_init (Docs scenario_docs)"
    by (simp add: init_state_def deref_def)
  from date_filter_frame [OF r, of NoDb 0 "Some 1" "Some 2" NoDb 0 None None] r
  show ?thesis
    unfolding Let_def d scenario_callback by blast
qed

theorem value_counts_sorted_sum_witness:
  "sum_list (map snd (value_counts [Some ''connected'', None, Some ''no-answer'', Some ''connected'']))
     = 3 \<and>
   value_counts [Some ''connected'', None, Some ''no-answer'', Some ''connected'']
     = [(''connected'', 2), (''no-answer'', 1)]"
  using value_counts_sorted_sum [of "[Some ''connected'', None, Some ''no-answer'', Some ''connected'']" 0]
  by (simp add: value_counts_def dropna_def sort_values_desc_def)

end
